theory Spec2Isabelle
  imports Main "HOL-Library.Word" "HOL-Library.Monad_Syntax"
begin

section \<open>Python values as the gateway sees them\<close>

text \<open>
  The gateway in \<^verbatim>\<open>main.py\<close> walks over whatever \<^verbatim>\<open>resp.json()\<close> returns with
  duck-typed calls (\<^verbatim>\<open>.get\<close>, \<^verbatim>\<open>[0]\<close>, \<^verbatim>\<open>in\<close>, \<^verbatim>\<open>join\<close>, truth tests). The values a JSON
  decoder can produce are \<^verbatim>\<open>None\<close>, booleans, ints, floats, strings, lists and dicts
  with string keys.

  A string is a list of characters, one \<open>char\<close> per code point (so the model covers
  the code points below 256). A dict is an association list in insertion order, looked
  up with \<open>map_of\<close>. The program never computes with a float: it only tests its truth
  value and prints it, so a float carries these two observations (whether it is
  non-zero, and the text \<^verbatim>\<open>repr\<close> gives for it).
\<close>

datatype json =
    JNull
  | JBool bool
  | JInt int
  | JFloat (float_nonzero: bool) (float_repr: string)
  | JStr string
  | JArr "json list"
  | JObj "(string \<times> json) list"

text \<open>Python's truth test (\<^verbatim>\<open>if x\<close>, \<^verbatim>\<open>x or y\<close>, \<^verbatim>\<open>not x\<close>).\<close>

fun truthy :: "json \<Rightarrow> bool" where
  "truthy JNull = False"
| "truthy (JBool b) = b"
| "truthy (JInt i) = (i \<noteq> 0)"
| "truthy (JFloat nz r) = nz"
| "truthy (JStr s) = (s \<noteq> [])"
| "truthy (JArr xs) = (xs \<noteq> [])"
| "truthy (JObj m) = (m \<noteq> [])"

text \<open>\<^verbatim>\<open>x or y\<close>.\<close>

definition py_or :: "json \<Rightarrow> json \<Rightarrow> json" where
  "py_or x y = (if truthy x then x else y)"

text \<open>
  \<^verbatim>\<open>x.get(key, default)\<close>: only a dict has the method; on any other value the call
  raises AttributeError, which is \<open>None\<close> here.
\<close>

fun py_get :: "json \<Rightarrow> string \<Rightarrow> json \<Rightarrow> json option" where
  "py_get (JObj m) k d = Some (case map_of m k of Some v \<Rightarrow> v | None \<Rightarrow> d)"
| "py_get _ k d = None"

text \<open>
  \<^verbatim>\<open>x[0]\<close>: the first element of a list or the first character of a string (IndexError
  when empty); a dict with string keys has no key \<^verbatim>\<open>0\<close> (KeyError); the other values are
  not subscriptable (TypeError). Every raise is \<open>None\<close>.
\<close>

fun py_index0 :: "json \<Rightarrow> json option" where
  "py_index0 (JArr (x # xs)) = Some x"
| "py_index0 (JStr (c # cs)) = Some (JStr [c])"
| "py_index0 _ = None"

text \<open>
  \<^verbatim>\<open>for p in x\<close>: the elements of a list, the keys of a dict, the characters of a
  string; the other values are not iterable (TypeError).
\<close>

fun py_iter :: "json \<Rightarrow> json list option" where
  "py_iter (JArr xs) = Some xs"
| "py_iter (JObj m) = Some (map (\<lambda>kv. JStr (fst kv)) m)"
| "py_iter (JStr s) = Some (map (\<lambda>c. JStr [c]) s)"
| "py_iter _ = None"

fun starts_with :: "string \<Rightarrow> string \<Rightarrow> bool" where
  "starts_with [] s = True"
| "starts_with (a # as) [] = False"
| "starts_with (a # as) (c # cs) = (a = c \<and> starts_with as cs)"

text \<open>\<^verbatim>\<open>needle in haystack\<close> on two strings: the substring test.\<close>

fun py_in_str :: "string \<Rightarrow> string \<Rightarrow> bool" where
  "py_in_str n [] = (n = [])"
| "py_in_str n (c # cs) = (starts_with n (c # cs) \<or> py_in_str n cs)"

text \<open>
  \<^verbatim>\<open>key in x\<close> for a string \<^verbatim>\<open>key\<close>: key membership on a dict, element membership on
  a list, the substring test on a string; TypeError on the other values.
\<close>

fun py_in :: "string \<Rightarrow> json \<Rightarrow> bool option" where
  "py_in k (JObj m) = Some (map_of m k \<noteq> None)"
| "py_in k (JArr xs) = Some (JStr k \<in> set xs)"
| "py_in k (JStr s) = Some (py_in_str k s)"
| "py_in k _ = None"

text \<open>\<^verbatim>\<open>sep.join(xs)\<close> on strings.\<close>

fun join_str :: "string \<Rightarrow> string list \<Rightarrow> string" where
  "join_str sep [] = []"
| "join_str sep [x] = x"
| "join_str sep (x # y # ys) = x @ sep @ join_str sep (y # ys)"

text \<open>
  \<^verbatim>\<open>sep.join(xs)\<close> on a list of values: TypeError unless every item is a string.
\<close>

fun as_strings :: "json list \<Rightarrow> string list option" where
  "as_strings [] = Some []"
| "as_strings (JStr s # xs) = map_option ((#) s) (as_strings xs)"
| "as_strings (_ # xs) = None"

definition py_join :: "string \<Rightarrow> json list \<Rightarrow> string option" where
  "py_join sep xs = map_option (join_str sep) (as_strings xs)"

subsection \<open>\<^verbatim>\<open>str()\<close> of a decoded JSON value\<close>

definition digit_char :: "nat \<Rightarrow> char" where
  "digit_char n = ''0123456789abcdef'' ! (n mod 16)"

fun nat_str :: "nat \<Rightarrow> string" where
  "nat_str n = (if n < 10 then [digit_char n] else nat_str (n div 10) @ [digit_char (n mod 10)])"

declare nat_str.simps [simp del]

definition int_str :: "int \<Rightarrow> string" where
  "int_str i = (if i < 0 then CHR ''-'' # nat_str (nat (- i)) else nat_str (nat i))"

text \<open>
  \<^verbatim>\<open>repr\<close> of a string: single quotes, unless the string holds a single quote and no
  double quote; the quote in use and the backslash are escaped, tab, newline and
  carriage return are written \<^verbatim>\<open>\t\<close>, \<^verbatim>\<open>\n\<close>, \<^verbatim>\<open>\r\<close>, and every other
  non-printable character as \<^verbatim>\<open>\xNN\<close>.
\<close>

definition py_printable :: "char \<Rightarrow> bool" where
  "py_printable c =
     (let n = (of_char c :: nat) in (32 \<le> n \<and> n < 127) \<or> (161 \<le> n \<and> n \<noteq> 173))"

definition repr_char :: "char \<Rightarrow> char \<Rightarrow> string" where
  "repr_char q c =
     (if c = q \<or> c = CHR 0x5C then [CHR 0x5C, c]
      else if c = CHR 0x09 then [CHR 0x5C, CHR ''t'']
      else if c = CHR 0x0A then [CHR 0x5C, CHR ''n'']
      else if c = CHR 0x0D then [CHR 0x5C, CHR ''r'']
      else if py_printable c then [c]
      else [CHR 0x5C, CHR ''x'', digit_char (of_char c div 16), digit_char (of_char c mod 16)])"

definition str_repr :: "string \<Rightarrow> string" where
  "str_repr s =
     (let q = (if CHR 0x27 \<in> set s \<and> CHR 0x22 \<notin> set s then CHR 0x22 else CHR 0x27)
      in q # concat (map (repr_char q) s) @ [q])"

fun py_repr :: "json \<Rightarrow> string" where
  "py_repr JNull = ''None''"
| "py_repr (JBool b) = (if b then ''True'' else ''False'')"
| "py_repr (JInt i) = int_str i"
| "py_repr (JFloat nz r) = r"
| "py_repr (JStr s) = str_repr s"
| "py_repr (JArr xs) = ''['' @ join_str '', '' (map py_repr xs) @ '']''"
| "py_repr (JObj m) =
     ''{'' @ join_str '', '' (map (\<lambda>kv. str_repr (fst kv) @ '': '' @ py_repr (snd kv)) m) @ ''}''"

text \<open>\<^verbatim>\<open>str(x)\<close>: a string is itself, every other value prints as its \<^verbatim>\<open>repr\<close>.\<close>

fun py_str :: "json \<Rightarrow> string" where
  "py_str (JStr s) = s"
| "py_str v = py_repr v"

section \<open>The environment and the provider\<close>

text \<open>
  What the gateway sends with \<^verbatim>\<open>requests.post(url, json={"contents": contents},
  timeout=60)\<close>. A content part is \<^verbatim>\<open>{"text": s}\<close> or
  \<^verbatim>\<open>{"inline_data": {"mime_type": m, "data": d}}\<close>; a message is
  \<^verbatim>\<open>{"role": r, "parts": [...]}\<close>.
\<close>

datatype part = TextPart string | InlineData (mime_type: string) (b64_data: string)

record message =
  role :: string
  parts :: "part list"

record request =
  url :: string
  contents :: "message list"
  timeout :: nat

text \<open>
  What comes back: \<^verbatim>\<open>resp.status_code\<close>, \<^verbatim>\<open>resp.text\<close> (\<open>resp_text\<close>), and the outcome of
  \<^verbatim>\<open>resp.json()\<close>, which is \<open>None\<close> when the decoder raises.
\<close>

record response =
  status_code :: int
  resp_text :: string
  json_body :: "json option"

text \<open>\<^verbatim>\<open>requests.post\<close> raises (with the exception's text) or returns a response.\<close>

datatype post_result = Raised string | Responded response

text \<open>
  The world of one request: the process environment (\<^verbatim>\<open>os.getenv\<close>), the behaviour of
  the network, and the log of the outbound calls made so far.
\<close>

record world =
  getenv :: "string \<rightharpoonup> string"
  post :: "request \<Rightarrow> post_result"
  calls :: "request list"

text \<open>
  The exceptions that leave the gateway: FastAPI's \<^verbatim>\<open>HTTPException(status_code, detail)\<close>,
  and the decoder's error that \<^verbatim>\<open>resp.json()\<close> raises.
\<close>

datatype exn = HTTPException int string | JSONDecodeError

section \<open>The gateway\<close>

text \<open>
  \<^verbatim>\<open>os.getenv("GEMINI_API_KEY") or os.getenv("GOOGLE_API_KEY")\<close>: an unset variable is
  \<^verbatim>\<open>None\<close>, and \<^verbatim>\<open>or\<close> passes over \<^verbatim>\<open>None\<close> and the empty string alike.
\<close>

definition env_or :: "string option \<Rightarrow> string option \<Rightarrow> string option" where
  "env_or a b = (case a of Some (c # cs) \<Rightarrow> Some (c # cs) | _ \<Rightarrow> b)"

definition gemini_api_key :: "world \<Rightarrow> exn + string" where
  "gemini_api_key w =
     (case env_or (getenv w ''GEMINI_API_KEY'') (getenv w ''GOOGLE_API_KEY'') of
        Some (c # cs) \<Rightarrow> Inr (c # cs)
      | _ \<Rightarrow> Inl (HTTPException 500 ''GEMINI_API_KEY not configured on server''))"

text \<open>
  The body of the \<^verbatim>\<open>try\<close> block of \<^verbatim>\<open>_gemini_generate\<close>, statement by statement;
  \<open>None\<close> is any exception raised inside it.
\<close>

fun collect_texts :: "json list \<Rightarrow> json list option" where
  "collect_texts [] = Some []"
| "collect_texts (p # ps) =
     (case py_in ''text'' p of
        None \<Rightarrow> None
      | Some False \<Rightarrow> collect_texts ps
      | Some True \<Rightarrow>
          (case py_get p ''text'' (JStr []) of
             None \<Rightarrow> None
           | Some t \<Rightarrow> map_option ((#) t) (collect_texts ps)))"

definition no_response_text :: string where
  "no_response_text = ''No response text returned from model.''"

definition extract_text :: "json \<Rightarrow> json option" where
  "extract_text data = do {
     c \<leftarrow> py_get data ''candidates'' JNull;
     first \<leftarrow> py_index0 (py_or c (JArr []));
     content \<leftarrow> py_get first ''content'' (JObj []);
     ps \<leftarrow> py_get content ''parts'' (JArr []);
     items \<leftarrow> py_iter ps;
     texts \<leftarrow> collect_texts items;
     joined \<leftarrow> py_join [CHR 0x0A] (filter truthy texts);
     t \<leftarrow> (if \<not> truthy (JStr joined)
           then map_option (\<lambda>v. py_or v (JStr [])) (py_get data ''text'' JNull)
           else Some (JStr joined));
     Some (if \<not> truthy t then JStr no_response_text else t)
   }"

definition gemini_url :: "string \<Rightarrow> string" where
  "gemini_url api_key =
     ''https://generativelanguage.googleapis.com/v1beta/models/'' @
     ''gemini-1.5-flash:generateContent?key='' @ api_key"

definition gemini_generate :: "world \<Rightarrow> message list \<Rightarrow> (exn + json) \<times> world" where
  "gemini_generate w cs =
     (case gemini_api_key w of
        Inl e \<Rightarrow> (Inl e, w)
      | Inr api_key \<Rightarrow>
          (let req = \<lparr>url = gemini_url api_key, contents = cs, timeout = 60\<rparr>;
               w' = w\<lparr>calls := calls w @ [req]\<rparr>
           in case post w req of
                Raised e \<Rightarrow> (Inl (HTTPException 502 (''Error contacting Gemini: '' @ e)), w')
              | Responded resp \<Rightarrow>
                  if status_code resp \<noteq> 200
                  then (Inl (HTTPException (status_code resp)
                               (''Gemini API error: '' @ take 500 (resp_text resp))), w')
                  else (case json_body resp of
                          None \<Rightarrow> (Inl JSONDecodeError, w')
                        | Some data \<Rightarrow>
                            (case extract_text data of
                               Some t \<Rightarrow> (Inr t, w')
                             | None \<Rightarrow>
                                 (Inr (JStr (''Unable to parse model response. Raw: '' @
                                             take 500 (py_str data))), w')))))"

section \<open>The two solve endpoints\<close>

text \<open>The validated request body of \<^verbatim>\<open>POST /api/solve/text\<close>.\<close>

record text_request =
  query :: string
  system_instruction :: "string option"

text \<open>An endpoint answers \<^verbatim>\<open>{"answer": answer}\<close>.\<close>

datatype reply = Answer json

definition default_instruction :: string where
  "default_instruction =
     ''You are a helpful math tutor. Solve the problem step-by-step. '' @
     ''Show clear reasoning, intermediate steps, and final answer.''"

text \<open>\<^verbatim>\<open>x or default\<close> on an optional string.\<close>

definition str_or :: "string option \<Rightarrow> string \<Rightarrow> string" where
  "str_or x d = (case x of Some (c # cs) \<Rightarrow> c # cs | _ \<Rightarrow> d)"

definition text_contents :: "text_request \<Rightarrow> message list" where
  "text_contents body =
     (let user_instruction = str_or (system_instruction body) default_instruction
      in [\<lparr>role = ''user'',
           parts = [TextPart user_instruction, TextPart ''Problem:'', TextPart (query body)]\<rparr>])"

definition solve_text :: "world \<Rightarrow> text_request \<Rightarrow> (exn + reply) \<times> world" where
  "solve_text w body =
     (case gemini_generate w (text_contents body) of
        (Inl e, w') \<Rightarrow> (Inl e, w')
      | (Inr answer, w') \<Rightarrow> (Inr (Answer answer), w'))"

text \<open>\<^verbatim>\<open>base64.b64encode(data).decode("utf-8")\<close>.\<close>

definition b64_char :: "nat \<Rightarrow> char" where
  "b64_char n =
     ''ABCDEFGHIJKLMNOPQRSTUVWXYZabcdefghijklmnopqrstuvwxyz0123456789+/'' ! (n mod 64)"

fun b64encode :: "8 word list \<Rightarrow> string" where
  "b64encode (a # b # c # rest) =
     (let n = unat a * 65536 + unat b * 256 + unat c
      in [b64_char (n div 262144), b64_char (n div 4096), b64_char (n div 64), b64_char n])
     @ b64encode rest"
| "b64encode [a, b] =
     (let n = unat a * 65536 + unat b * 256
      in [b64_char (n div 262144), b64_char (n div 4096), b64_char (n div 64), CHR ''=''])"
| "b64encode [a] =
     (let n = unat a * 65536
      in [b64_char (n div 262144), b64_char (n div 4096), CHR ''='', CHR ''=''])"
| "b64encode [] = []"

text \<open>
  The upload of \<^verbatim>\<open>POST /api/solve/image\<close>: the bytes \<^verbatim>\<open>image.read()\<close> returns and
  the declared \<^verbatim>\<open>content_type\<close>, which may be absent.
\<close>

record upload_file =
  file_bytes :: "8 word list"
  content_type :: "string option"

definition image_instruction :: string where
  "image_instruction =
     ''You are a helpful math tutor. Read the problem from the image and solve it '' @
     ''step-by-step. If the image is unclear, state assumptions.''"

definition image_contents :: "upload_file \<Rightarrow> string option \<Rightarrow> message list" where
  "image_contents img q =
     (let mime = str_or (content_type img) ''image/png'';
          b64 = b64encode (file_bytes img);
          ps = [TextPart image_instruction, InlineData mime b64];
          ps' = (case q of
                   Some (c # cs) \<Rightarrow> ps @ [TextPart ''Additional context:''] @ [TextPart (c # cs)]
                 | _ \<Rightarrow> ps)
      in [\<lparr>role = ''user'', parts = ps'\<rparr>])"

definition solve_image :: "world \<Rightarrow> upload_file \<Rightarrow> string option \<Rightarrow> (exn + reply) \<times> world" where
  "solve_image w img q =
     (if file_bytes img = [] then (Inl (HTTPException 400 ''Empty image upload''), w)
      else (case gemini_generate w (image_contents img q) of
              (Inl e, w') \<Rightarrow> (Inl e, w')
            | (Inr answer, w') \<Rightarrow> (Inr (Answer answer), w')))"

section \<open>The shape of a well-formed provider answer\<close>

text \<open>
  The provider's contract puts the answer under \<^verbatim>\<open>candidates[0].content.parts\<close>, a list
  of objects. A part is acceptable to the extraction when it is an object whose
  \<^verbatim>\<open>text\<close> field, if it has one, is a string or a value Python counts as false (which
  the extraction drops like the empty string). \<open>part_text\<close> is the text such a part
  contributes, and \<open>joined_part_texts\<close> is the first rule of the extraction as the
  specification words it: the non-empty texts, in order, joined with newlines.
\<close>

fun part_ok :: "json \<Rightarrow> bool" where
  "part_ok (JObj pm) =
     (case map_of pm ''text'' of
        None \<Rightarrow> True
      | Some (JStr s) \<Rightarrow> True
      | Some v \<Rightarrow> \<not> truthy v)"
| "part_ok _ = False"

fun part_text :: "json \<Rightarrow> string" where
  "part_text (JObj pm) = (case map_of pm ''text'' of Some (JStr s) \<Rightarrow> s | _ \<Rightarrow> [])"
| "part_text _ = []"

definition joined_part_texts :: "json list \<Rightarrow> string" where
  "joined_part_texts ps = join_str [CHR 0x0A] (filter (\<lambda>s. s \<noteq> []) (map part_text ps))"

section \<open>Concrete environments, requests and responses\<close>

text \<open>The values at which the theorems below are run.\<close>

definition fallback_key_world :: world where
  "fallback_key_world =
     \<lparr>getenv = [''GEMINI_API_KEY'' \<mapsto> [], ''GOOGLE_API_KEY'' \<mapsto> ''k2''],
      post = (\<lambda>r. Raised ''timed out''),
      calls = []\<rparr>"

definition no_key_world :: world where
  "no_key_world =
     \<lparr>getenv = [''GEMINI_API_KEY'' \<mapsto> []],
      post = (\<lambda>r. Raised ''timed out''),
      calls = []\<rparr>"

definition provider_world :: "response \<Rightarrow> world" where
  "provider_world resp =
     \<lparr>getenv = [''GEMINI_API_KEY'' \<mapsto> ''k1''],
      post = (\<lambda>r. Responded resp),
      calls = []\<rparr>"

definition sample_upload :: upload_file where
  "sample_upload = \<lparr>file_bytes = [77, 97, 110], content_type = Some ''image/jpeg''\<rparr>"

definition untyped_upload :: upload_file where
  "untyped_upload = \<lparr>file_bytes = [77, 97], content_type = None\<rparr>"

definition empty_upload :: upload_file where
  "empty_upload = \<lparr>file_bytes = [], content_type = Some ''image/png''\<rparr>"

definition sample_body :: text_request where
  "sample_body = \<lparr>query = ''2+2'', system_instruction = Some ''Be brief.''\<rparr>"

definition blank_instruction_body :: text_request where
  "blank_instruction_body = \<lparr>query = ''2+2'', system_instruction = Some []\<rparr>"

definition candidates_body :: "json list \<Rightarrow> json" where
  "candidates_body ps =
     JObj [(''candidates'', JArr [JObj [(''content'', JObj [(''parts'', JArr ps)])]])]"

definition two_parts_response :: response where
  "two_parts_response =
     \<lparr>status_code = 200, resp_text = [],
      json_body =
        Some (candidates_body [JObj [(''text'', JStr ''a'')], JObj [(''text'', JStr ''b'')]])\<rparr>"

definition number_part_response :: response where
  "number_part_response =
     \<lparr>status_code = 200, resp_text = [],
      json_body = Some (candidates_body [JObj [(''text'', JStr ''a'')], JInt 7])\<rparr>"

definition empty_object_response :: response where
  "empty_object_response =
     \<lparr>status_code = 200, resp_text = ''{}'', json_body = Some (JObj [])\<rparr>"

definition html_response :: response where
  "html_response =
     \<lparr>status_code = 200, resp_text = ''<html>Bad Gateway</html>'', json_body = None\<rparr>"

definition created_response :: response where
  "created_response = \<lparr>status_code = 201, resp_text = ''created'', json_body = None\<rparr>"

definition rate_limited_response :: response where
  "rate_limited_response =
     \<lparr>status_code = 429, resp_text = ''rate limited'', json_body = None\<rparr>"

section \<open>Facts about the gateway shared by the claims\<close>

lemma api_key_absent:
  assumes "getenv w ''GEMINI_API_KEY'' = None \<or> getenv w ''GEMINI_API_KEY'' = Some []"
    and "getenv w ''GOOGLE_API_KEY'' = None \<or> getenv w ''GOOGLE_API_KEY'' = Some []"
  shows "gemini_api_key w = Inl (HTTPException 500 ''GEMINI_API_KEY not configured on server'')"
  using assms by (auto simp: gemini_api_key_def env_or_def)

lemma generate_without_key:
  "gemini_api_key w = Inl e \<Longrightarrow> gemini_generate w cs = (Inl e, w)"
  by (simp add: gemini_generate_def)

lemma generate_calls:
  "gemini_api_key w = Inr k \<Longrightarrow>
   calls (snd (gemini_generate w cs)) =
     calls w @ [\<lparr>url = gemini_url k, contents = cs, timeout = 60\<rparr>]"
  by (simp add: gemini_generate_def Let_def split: post_result.split option.split)

lemma generate_on_response:
  assumes "gemini_api_key w = Inr k"
    and "post w \<lparr>url = gemini_url k, contents = cs, timeout = 60\<rparr> = Responded resp"
  shows "fst (gemini_generate w cs) =
           (if status_code resp \<noteq> 200
            then Inl (HTTPException (status_code resp)
                        (''Gemini API error: '' @ take 500 (resp_text resp)))
            else case json_body resp of
                   None \<Rightarrow> Inl JSONDecodeError
                 | Some data \<Rightarrow>
                     (case extract_text data of
                        Some t \<Rightarrow> Inr t
                      | None \<Rightarrow> Inr (JStr (''Unable to parse model response. Raw: '' @
                                           take 500 (py_str data)))))"
  using assms by (simp add: gemini_generate_def Let_def split: option.split)

lemma solve_text_world:
  "snd (solve_text w body) = snd (gemini_generate w (text_contents body))"
  by (simp add: solve_text_def split: prod.split sum.split)

lemma solve_image_world:
  "file_bytes img \<noteq> [] \<Longrightarrow>
   snd (solve_image w img q) = snd (gemini_generate w (image_contents img q))"
  by (simp add: solve_image_def split: prod.split sum.split)

text \<open>
  Once the body of a 200 response has been decoded, the gateway returns a value whatever
  the shape of the body: the extracted text, or the best-effort string when a step of
  the extraction raised.
\<close>

lemma decoded_body_returns:
  assumes "gemini_api_key w = Inr k"
    and "post w \<lparr>url = gemini_url k, contents = cs, timeout = 60\<rparr> = Responded resp"
    and "status_code resp = 200"
    and "json_body resp = Some data"
  shows "\<exists>t. fst (gemini_generate w cs) = Inr t \<and>
             (extract_text data = None \<longrightarrow>
              t = JStr (''Unable to parse model response. Raw: '' @ take 500 (py_str data)))"
  by (simp add: generate_on_response [OF assms(1,2)] assms(3,4) split: option.split)

section \<open>Extraction of the answer (C1, C2)\<close>

lemma collect_texts_ok:
  "\<forall>p \<in> set ps. part_ok p \<Longrightarrow>
   \<exists>ts. collect_texts ps = Some ts \<and>
        as_strings (filter truthy ts) = Some (filter (\<lambda>s. s \<noteq> []) (map part_text ps))"
proof (induction ps)
  case Nil
  then show ?case by simp
next
  case (Cons p ps)
  then obtain ts where ts: "collect_texts ps = Some ts"
    "as_strings (filter truthy ts) = Some (filter (\<lambda>s. s \<noteq> []) (map part_text ps))"
    by auto
  from Cons.prems have ok: "part_ok p" by simp
  then obtain pm where p: "p = JObj pm" by (cases p) simp_all
  show ?case
  proof (cases "map_of pm ''text''")
    case None
    then show ?thesis using ts p by simp
  next
    case (Some v)
    with ok p have "(\<exists>s. v = JStr s) \<or> \<not> truthy v"
      by (cases v) simp_all
    then show ?thesis
    proof
      assume "\<exists>s. v = JStr s"
      then obtain s where "v = JStr s" ..
      then show ?thesis using ts p Some by simp
    next
      assume "\<not> truthy v"
      then show ?thesis using ts p Some by (cases v) simp_all
    qed
  qed
qed

lemma extract_text_shaped:
  assumes "map_of m ''candidates'' = Some (JArr (JObj f # rest))"
    and "map_of f ''content'' = Some (JObj c)"
    and "map_of c ''parts'' = Some (JArr ps)"
    and "\<forall>p \<in> set ps. part_ok p"
  shows "extract_text (JObj m) =
           Some (if joined_part_texts ps \<noteq> [] then JStr (joined_part_texts ps)
                 else case map_of m ''text'' of
                        None \<Rightarrow> JStr no_response_text
                      | Some v \<Rightarrow> if truthy v then v else JStr no_response_text)"
proof -
  obtain ts where ts: "collect_texts ps = Some ts"
    "as_strings (filter truthy ts) = Some (filter (\<lambda>s. s \<noteq> []) (map part_text ps))"
    using collect_texts_ok [OF assms(4)] by auto
  have j: "py_join [CHR 0x0A] (filter truthy ts) = Some (joined_part_texts ps)"
    by (simp add: py_join_def ts joined_part_texts_def)
  show ?thesis
    by (simp add: extract_text_def assms(1-3) py_or_def ts j no_response_text_def
        split: option.split)
qed

text \<open>
  Claim C1, as stated, at a body that has \<^verbatim>\<open>candidates[0].content.parts\<close>: the parts are
  \<^verbatim>\<open>[{"text": "a"}, 7]\<close>. The second part has no \<^verbatim>\<open>text\<close> field, so the claim skips it
  and promises \<^verbatim>\<open>"a"\<close>. In the code \<^verbatim>\<open>"text" in 7\<close> raises TypeError inside the
  \<^verbatim>\<open>try\<close>, and the handler returns the best-effort string instead.
\<close>

theorem number_part_counterexample:
  "fst (gemini_generate (provider_world number_part_response) []) =
     Inr (JStr (''Unable to parse model response. Raw: '' @
                ''{'candidates': [{'content': {'parts': [{'text': 'a'}, 7]}}]}'')) \<and>
   fst (gemini_generate (provider_world number_part_response) []) \<noteq> Inr (JStr ''a'')"
  by (simp add: provider_world_def number_part_response_def gemini_generate_def
      gemini_api_key_def env_or_def extract_text_def candidates_body_def py_or_def
      str_repr_def repr_char_def py_printable_def int_str_def nat_str.simps digit_char_def
      Let_def)

text \<open>
  Claim C1, amended: for every 200 response whose decoded body is an object with
  \<^verbatim>\<open>candidates\<close> a list whose first element is an object, with \<^verbatim>\<open>content\<close> an object
  and \<^verbatim>\<open>parts\<close> a list of objects whose \<^verbatim>\<open>text\<close> fields, where present, are strings
  (or values Python counts as false), the gateway returns the non-empty texts of the
  parts, in order, joined with newlines; if that join is empty, the top-level \<^verbatim>\<open>text\<close>
  field when it is present and not false; and otherwise the literal
  \<^verbatim>\<open>No response text returned from model.\<close>
\<close>

theorem extraction_order:
  assumes "gemini_api_key w = Inr k"
    and "post w \<lparr>url = gemini_url k, contents = cs, timeout = 60\<rparr> = Responded resp"
    and "status_code resp = 200"
    and "json_body resp = Some (JObj m)"
    and "map_of m ''candidates'' = Some (JArr (JObj f # rest))"
    and "map_of f ''content'' = Some (JObj c)"
    and "map_of c ''parts'' = Some (JArr ps)"
    and "\<forall>p \<in> set ps. part_ok p"
  shows "fst (gemini_generate w cs) =
           Inr (if joined_part_texts ps \<noteq> [] then JStr (joined_part_texts ps)
                else case map_of m ''text'' of
                       None \<Rightarrow> JStr no_response_text
                     | Some v \<Rightarrow> if truthy v then v else JStr no_response_text)"
  by (simp add: generate_on_response [OF assms(1,2)] assms(3,4)
      extract_text_shaped [OF assms(5-8)])

text \<open>The specification's example: the parts \<^verbatim>\<open>[{"text":"a"},{"text":"b"}]\<close> give \<^verbatim>\<open>"a\nb"\<close>.\<close>

theorem extraction_order_witness:
  "fst (gemini_generate (provider_world two_parts_response) []) =
     Inr (JStr [CHR ''a'', CHR 0x0A, CHR ''b''])"
  using extraction_order [of "provider_world two_parts_response" "''k1''" "[]" two_parts_response
      "[(''candidates'', JArr [JObj [(''content'', JObj [(''parts'',
          JArr [JObj [(''text'', JStr ''a'')], JObj [(''text'', JStr ''b'')]])])]])]"
      "[(''content'', JObj [(''parts'',
          JArr [JObj [(''text'', JStr ''a'')], JObj [(''text'', JStr ''b'')]])])]" "[]"
      "[(''parts'', JArr [JObj [(''text'', JStr ''a'')], JObj [(''text'', JStr ''b'')]])]"
      "[JObj [(''text'', JStr ''a'')], JObj [(''text'', JStr ''b'')]]"]
  by (simp add: provider_world_def two_parts_response_def candidates_body_def gemini_api_key_def
      env_or_def joined_part_texts_def)

text \<open>
  Claim C2 says that a 200 response never makes the gateway raise. The call
  \<^verbatim>\<open>resp.json()\<close> stands before the \<^verbatim>\<open>try\<close> block, so a 200 response whose body is not
  JSON (here an HTML page) raises the decoder's error out of \<^verbatim>\<open>_gemini_generate\<close>, after
  the one outbound call has been made: the request fails instead of returning the
  best-effort string.
\<close>

theorem non_json_body_raises:
  "fst (solve_text (provider_world html_response) sample_body) = Inl JSONDecodeError \<and>
   calls (snd (solve_text (provider_world html_response) sample_body)) =
     [\<lparr>url = gemini_url ''k1'', contents = text_contents sample_body, timeout = 60\<rparr>]"
  by (simp add: solve_text_def gemini_generate_def provider_world_def html_response_def
      gemini_api_key_def env_or_def)

section \<open>The message of \<^verbatim>\<open>solve_text\<close> (C3)\<close>

text \<open>
  Claim C3, as stated, at a request whose \<^verbatim>\<open>system_instruction\<close> is supplied and is the
  empty string: the claim puts the supplied instruction first, the code puts the default
  one there, since \<^verbatim>\<open>or\<close> passes over the empty string as it does over \<^verbatim>\<open>None\<close>.
\<close>

theorem blank_instruction_counterexample:
  "system_instruction blank_instruction_body = Some [] \<and>
   text_contents blank_instruction_body \<noteq>
     [\<lparr>role = ''user'', parts = [TextPart [], TextPart ''Problem:'', TextPart ''2+2'']\<rparr>] \<and>
   text_contents blank_instruction_body =
     [\<lparr>role = ''user'',
       parts = [TextPart default_instruction, TextPart ''Problem:'', TextPart ''2+2'']\<rparr>]"
  by (simp add: text_contents_def blank_instruction_body_def str_or_def default_instruction_def)

text \<open>
  Claim C3, amended: for every query, \<^verbatim>\<open>solve_text\<close> builds exactly one message, of role
  \<^verbatim>\<open>user\<close>, whose parts are exactly three text parts in this order: the supplied
  \<^verbatim>\<open>system_instruction\<close> when it is a non-empty string, and the default tutoring
  instruction when it is omitted, null or empty; the label \<^verbatim>\<open>Problem:\<close>; the query
  verbatim. With a credential configured, that message is what the one outbound call
  carries.
\<close>

theorem solve_text_message:
  "(system_instruction body = Some s \<and> s \<noteq> [] \<longrightarrow>
      text_contents body =
        [\<lparr>role = ''user'',
          parts = [TextPart s, TextPart ''Problem:'', TextPart (query body)]\<rparr>]) \<and>
   (system_instruction body = None \<or> system_instruction body = Some [] \<longrightarrow>
      text_contents body =
        [\<lparr>role = ''user'',
          parts = [TextPart default_instruction, TextPart ''Problem:'',
                   TextPart (query body)]\<rparr>]) \<and>
   (gemini_api_key w = Inr k \<longrightarrow>
      calls (snd (solve_text w body)) =
        calls w @ [\<lparr>url = gemini_url k, contents = text_contents body, timeout = 60\<rparr>])"
proof (intro conjI impI)
  assume "system_instruction body = Some s \<and> s \<noteq> []"
  then show "text_contents body =
        [\<lparr>role = ''user'', parts = [TextPart s, TextPart ''Problem:'', TextPart (query body)]\<rparr>]"
    by (cases s) (simp_all add: text_contents_def str_or_def)
next
  assume "system_instruction body = None \<or> system_instruction body = Some []"
  then show "text_contents body =
        [\<lparr>role = ''user'',
          parts = [TextPart default_instruction, TextPart ''Problem:'', TextPart (query body)]\<rparr>]"
    by (auto simp: text_contents_def str_or_def)
next
  assume "gemini_api_key w = Inr k"
  then show "calls (snd (solve_text w body)) =
        calls w @ [\<lparr>url = gemini_url k, contents = text_contents body, timeout = 60\<rparr>]"
    by (simp add: solve_text_world generate_calls)
qed

theorem solve_text_message_witness:
  "text_contents sample_body =
     [\<lparr>role = ''user'',
       parts = [TextPart ''Be brief.'', TextPart ''Problem:'', TextPart ''2+2'']\<rparr>] \<and>
   text_contents \<lparr>query = ''2+2'', system_instruction = None\<rparr> =
     [\<lparr>role = ''user'',
       parts = [TextPart default_instruction, TextPart ''Problem:'', TextPart ''2+2'']\<rparr>] \<and>
   calls (snd (solve_text fallback_key_world sample_body)) =
     [\<lparr>url = gemini_url ''k2'', contents = text_contents sample_body, timeout = 60\<rparr>]"
  using solve_text_message [of sample_body "''Be brief.''" fallback_key_world "''k2''"]
    solve_text_message [of "\<lparr>query = ''2+2'', system_instruction = None\<rparr>" "[]"
      fallback_key_world "''k2''"]
  by (simp add: sample_body_def fallback_key_world_def gemini_api_key_def env_or_def)

section \<open>The message of \<^verbatim>\<open>solve_image\<close> (C4, C5, C10)\<close>

text \<open>
  Claim C4: for every non-empty image payload with a declared media type,
  \<^verbatim>\<open>solve_image\<close> builds exactly one message, of role \<^verbatim>\<open>user\<close>. With no query (absent
  or empty) its parts are exactly two: the fixed image-tutoring instruction, then the
  inline attachment carrying the declared media type and the base64 text of the bytes.
  With a non-empty query its parts are exactly four: these two, then the label
  \<^verbatim>\<open>Additional context:\<close>, then the query. With a credential configured, that message is
  what the one outbound call carries.
\<close>

theorem solve_image_message:
  assumes "file_bytes img \<noteq> []" and "content_type img = Some m" and "m \<noteq> []"
  shows "(q = None \<or> q = Some [] \<longrightarrow>
            image_contents img q =
              [\<lparr>role = ''user'',
                parts = [TextPart image_instruction,
                         InlineData m (b64encode (file_bytes img))]\<rparr>]) \<and>
         (q = Some s \<and> s \<noteq> [] \<longrightarrow>
            image_contents img q =
              [\<lparr>role = ''user'',
                parts = [TextPart image_instruction,
                         InlineData m (b64encode (file_bytes img)),
                         TextPart ''Additional context:'', TextPart s]\<rparr>]) \<and>
         (gemini_api_key w = Inr k \<longrightarrow>
            calls (snd (solve_image w img q)) =
              calls w @ [\<lparr>url = gemini_url k, contents = image_contents img q, timeout = 60\<rparr>])"
proof -
  have mime: "str_or (content_type img) ''image/png'' = m"
    using assms(2,3) by (cases m) (simp_all add: str_or_def)
  show ?thesis
  proof (intro conjI impI)
    assume "q = None \<or> q = Some []"
    then show "image_contents img q =
              [\<lparr>role = ''user'',
                parts = [TextPart image_instruction,
                         InlineData m (b64encode (file_bytes img))]\<rparr>]"
      by (auto simp: image_contents_def mime)
  next
    assume "q = Some s \<and> s \<noteq> []"
    then show "image_contents img q =
              [\<lparr>role = ''user'',
                parts = [TextPart image_instruction,
                         InlineData m (b64encode (file_bytes img)),
                         TextPart ''Additional context:'', TextPart s]\<rparr>]"
      by (cases s) (simp_all add: image_contents_def mime)
  next
    assume "gemini_api_key w = Inr k"
    then show "calls (snd (solve_image w img q)) =
              calls w @ [\<lparr>url = gemini_url k, contents = image_contents img q, timeout = 60\<rparr>]"
      by (simp add: solve_image_world [OF assms(1)] generate_calls)
  qed
qed

text \<open>The three bytes \<^verbatim>\<open>Man\<close>, declared \<^verbatim>\<open>image/jpeg\<close>; their base64 text is \<^verbatim>\<open>TWFu\<close>.\<close>

theorem solve_image_message_witness:
  "image_contents sample_upload None =
     [\<lparr>role = ''user'',
       parts = [TextPart image_instruction, InlineData ''image/jpeg'' ''TWFu'']\<rparr>] \<and>
   image_contents sample_upload (Some ''area?'') =
     [\<lparr>role = ''user'',
       parts = [TextPart image_instruction, InlineData ''image/jpeg'' ''TWFu'',
                TextPart ''Additional context:'', TextPart ''area?'']\<rparr>] \<and>
   calls (snd (solve_image fallback_key_world sample_upload (Some ''area?''))) =
     [\<lparr>url = gemini_url ''k2'', contents = image_contents sample_upload (Some ''area?''),
       timeout = 60\<rparr>]"
  using solve_image_message [of sample_upload "''image/jpeg''" None "[]" fallback_key_world "''k2''"]
    solve_image_message [of sample_upload "''image/jpeg''" "Some ''area?''" "''area?''"
      fallback_key_world "''k2''"]
  by (simp add: sample_upload_def fallback_key_world_def gemini_api_key_def env_or_def
      b64_char_def)

text \<open>
  Claim C5: for every empty image payload, \<^verbatim>\<open>solve_image\<close> fails with
  \<^verbatim>\<open>HTTPException(400, "Empty image upload")\<close>, whatever the query and the environment,
  and leaves the world as it found it: no outbound call is made.
\<close>

theorem empty_image_rejected:
  "file_bytes img = [] \<Longrightarrow>
   solve_image w img q = (Inl (HTTPException 400 ''Empty image upload''), w)"
  by (simp add: solve_image_def)

theorem empty_image_rejected_witness:
  "solve_image (provider_world empty_object_response) empty_upload (Some ''area?'') =
     (Inl (HTTPException 400 ''Empty image upload''), provider_world empty_object_response) \<and>
   calls (provider_world empty_object_response) = []"
  using empty_image_rejected [of empty_upload "provider_world empty_object_response"
      "Some ''area?''"]
  by (simp add: empty_upload_def provider_world_def)

lemma solve_image_result:
  "file_bytes img \<noteq> [] \<Longrightarrow>
   fst (solve_image w img q) =
     (case fst (gemini_generate w (image_contents img q)) of
        Inl e \<Rightarrow> Inl e
      | Inr answer \<Rightarrow> Inr (Answer answer))"
  by (simp add: solve_image_def split: prod.split sum.split)

text \<open>
  Claim C10: when the upload declares no content type (absent or empty),
  \<^verbatim>\<open>solve_image\<close> does not fail on that account and builds the inline attachment with
  the media type \<^verbatim>\<open>image/png\<close>. The message it builds is the instruction, the
  \<^verbatim>\<open>image/png\<close> attachment with the base64 text of the bytes, and the two query parts
  when the query is non-empty. For a non-empty payload and a configured credential the
  one outbound call carries exactly that message, and when the provider answers it with
  status 200 and a JSON body the endpoint returns an answer. In every environment the
  endpoint behaves, in result and in outbound calls, as for the same upload declared
  \<^verbatim>\<open>image/png\<close>.
\<close>

theorem missing_content_type_defaults:
  assumes "content_type img = None \<or> content_type img = Some []"
  shows "image_contents img q =
           [\<lparr>role = ''user'',
                parts = TextPart image_instruction #
                        InlineData ''image/png'' (b64encode (file_bytes img)) #
                        (case q of
                           Some (c # cs) \<Rightarrow> [TextPart ''Additional context:'', TextPart (c # cs)]
                         | _ \<Rightarrow> [])\<rparr>] \<and>
         (file_bytes img \<noteq> [] \<and> gemini_api_key w = Inr k \<longrightarrow>
            calls (snd (solve_image w img q)) =
              calls w @
              [\<lparr>url = gemini_url k,
                contents =
                  [\<lparr>role = ''user'',
                parts = TextPart image_instruction #
                        InlineData ''image/png'' (b64encode (file_bytes img)) #
                        (case q of
                           Some (c # cs) \<Rightarrow> [TextPart ''Additional context:'', TextPart (c # cs)]
                         | _ \<Rightarrow> [])\<rparr>],
                timeout = 60\<rparr>]) \<and>
         (file_bytes img \<noteq> [] \<and> gemini_api_key w = Inr k \<and>
          post w \<lparr>url = gemini_url k,
                  contents =
                    [\<lparr>role = ''user'',
                parts = TextPart image_instruction #
                        InlineData ''image/png'' (b64encode (file_bytes img)) #
                        (case q of
                           Some (c # cs) \<Rightarrow> [TextPart ''Additional context:'', TextPart (c # cs)]
                         | _ \<Rightarrow> [])\<rparr>],
                  timeout = 60\<rparr> = Responded resp \<and>
          status_code resp = 200 \<and> json_body resp = Some data \<longrightarrow>
            fst (solve_image w img q) =
              Inr (Answer (case extract_text data of
                             Some t \<Rightarrow> t
                           | None \<Rightarrow> JStr (''Unable to parse model response. Raw: '' @
                                            take 500 (py_str data))))) \<and>
         solve_image w img q = solve_image w (img\<lparr>content_type := Some ''image/png''\<rparr>) q"
proof -
  have c: "image_contents img q =
           [\<lparr>role = ''user'',
                parts = TextPart image_instruction #
                        InlineData ''image/png'' (b64encode (file_bytes img)) #
                        (case q of
                           Some (c # cs) \<Rightarrow> [TextPart ''Additional context:'', TextPart (c # cs)]
                         | _ \<Rightarrow> [])\<rparr>]"
    using assms by (auto simp: image_contents_def str_or_def split: option.split list.split)
  have same: "image_contents (img\<lparr>content_type := Some ''image/png''\<rparr>) q =
      image_contents img q"
    using assms by (auto simp: image_contents_def str_or_def)
  show ?thesis
  proof (intro conjI impI)
    show "image_contents img q =
           [\<lparr>role = ''user'',
                parts = TextPart image_instruction #
                        InlineData ''image/png'' (b64encode (file_bytes img)) #
                        (case q of
                           Some (c # cs) \<Rightarrow> [TextPart ''Additional context:'', TextPart (c # cs)]
                         | _ \<Rightarrow> [])\<rparr>]"
      by (rule c)
  next
    assume "file_bytes img \<noteq> [] \<and> gemini_api_key w = Inr k"
    then have "calls (snd (solve_image w img q)) =
        calls w @ [\<lparr>url = gemini_url k, contents = image_contents img q, timeout = 60\<rparr>]"
      by (simp add: solve_image_world generate_calls)
    then show "calls (snd (solve_image w img q)) =
              calls w @
              [\<lparr>url = gemini_url k,
                contents =
                  [\<lparr>role = ''user'',
                parts = TextPart image_instruction #
                        InlineData ''image/png'' (b64encode (file_bytes img)) #
                        (case q of
                           Some (c # cs) \<Rightarrow> [TextPart ''Additional context:'', TextPart (c # cs)]
                         | _ \<Rightarrow> [])\<rparr>],
                timeout = 60\<rparr>]"
      by (simp only: c)
  next
    assume h: "file_bytes img \<noteq> [] \<and> gemini_api_key w = Inr k \<and>
          post w \<lparr>url = gemini_url k,
                  contents =
                    [\<lparr>role = ''user'',
                parts = TextPart image_instruction #
                        InlineData ''image/png'' (b64encode (file_bytes img)) #
                        (case q of
                           Some (c # cs) \<Rightarrow> [TextPart ''Additional context:'', TextPart (c # cs)]
                         | _ \<Rightarrow> [])\<rparr>],
                  timeout = 60\<rparr> = Responded resp \<and>
          status_code resp = 200 \<and> json_body resp = Some data"
    then have p: "post w \<lparr>url = gemini_url k, contents = image_contents img q, timeout = 60\<rparr> =
        Responded resp"
      by (simp only: c)
    from h have k: "gemini_api_key w = Inr k" and ne: "file_bytes img \<noteq> []"
      and st: "status_code resp = 200" and js: "json_body resp = Some data"
      by simp_all
    show "fst (solve_image w img q) =
              Inr (Answer (case extract_text data of
                             Some t \<Rightarrow> t
                           | None \<Rightarrow> JStr (''Unable to parse model response. Raw: '' @
                                            take 500 (py_str data))))"
      by (simp add: solve_image_result [OF ne] generate_on_response [OF k p] st js
          split: option.split)
  next
    show "solve_image w img q = solve_image w (img\<lparr>content_type := Some ''image/png''\<rparr>) q"
      by (simp add: solve_image_def same)
  qed
qed

text \<open>
  An upload of two bytes with no content type, answered by the provider with \<^verbatim>\<open>{}\<close>: the
  call carries the \<^verbatim>\<open>image/png\<close> attachment and the endpoint returns an answer.
\<close>

theorem missing_content_type_defaults_witness:
  "image_contents untyped_upload None =
     [\<lparr>role = ''user'',
       parts = [TextPart image_instruction, InlineData ''image/png'' ''TWE='']\<rparr>] \<and>
   calls (snd (solve_image (provider_world empty_object_response) untyped_upload None)) =
     [\<lparr>url = gemini_url ''k1'',
       contents =
         [\<lparr>role = ''user'',
           parts = [TextPart image_instruction, InlineData ''image/png'' ''TWE='']\<rparr>],
       timeout = 60\<rparr>] \<and>
   fst (solve_image (provider_world empty_object_response) untyped_upload None) =
     Inr (Answer (JStr ''Unable to parse model response. Raw: {}'')) \<and>
   solve_image (provider_world empty_object_response) untyped_upload None =
     solve_image (provider_world empty_object_response)
       (untyped_upload\<lparr>content_type := Some ''image/png''\<rparr>) None"
  using missing_content_type_defaults [of untyped_upload None
      "provider_world empty_object_response" "''k1''" empty_object_response "JObj []"]
  by (simp add: untyped_upload_def b64_char_def provider_world_def empty_object_response_def
      solve_image_def gemini_generate_def gemini_api_key_def env_or_def extract_text_def
      py_or_def image_contents_def str_or_def)

section \<open>Credentials (C6, C8)\<close>

text \<open>
  Claim C6: in every environment where neither \<^verbatim>\<open>GEMINI_API_KEY\<close> nor
  \<^verbatim>\<open>GOOGLE_API_KEY\<close> holds a non-empty value, \<^verbatim>\<open>solve_text\<close>, and \<^verbatim>\<open>solve_image\<close> on a
  non-empty payload, fail with \<^verbatim>\<open>HTTPException(500, "GEMINI_API_KEY not configured on
  server")\<close> and leave the world as they found it: no outbound call is made.
\<close>

theorem missing_credential_fails:
  assumes "getenv w ''GEMINI_API_KEY'' = None \<or> getenv w ''GEMINI_API_KEY'' = Some []"
    and "getenv w ''GOOGLE_API_KEY'' = None \<or> getenv w ''GOOGLE_API_KEY'' = Some []"
  shows "solve_text w body =
           (Inl (HTTPException 500 ''GEMINI_API_KEY not configured on server''), w) \<and>
         (file_bytes img \<noteq> [] \<longrightarrow>
          solve_image w img q =
            (Inl (HTTPException 500 ''GEMINI_API_KEY not configured on server''), w))"
  using api_key_absent [OF assms]
  by (simp add: solve_text_def solve_image_def generate_without_key)

theorem missing_credential_fails_witness:
  "solve_text no_key_world sample_body =
     (Inl (HTTPException 500 ''GEMINI_API_KEY not configured on server''), no_key_world) \<and>
   solve_image no_key_world sample_upload None =
     (Inl (HTTPException 500 ''GEMINI_API_KEY not configured on server''), no_key_world) \<and>
   calls no_key_world = []"
  using missing_credential_fails [of no_key_world sample_body sample_upload None]
  by (simp add: no_key_world_def sample_upload_def)

text \<open>
  Claim C8: the credential is the first non-empty value among \<^verbatim>\<open>GEMINI_API_KEY\<close> and
  \<^verbatim>\<open>GOOGLE_API_KEY\<close>, in that order. A non-empty \<^verbatim>\<open>GEMINI_API_KEY\<close> is used whatever
  \<^verbatim>\<open>GOOGLE_API_KEY\<close> holds; when \<^verbatim>\<open>GEMINI_API_KEY\<close> is unset or the empty string and
  \<^verbatim>\<open>GOOGLE_API_KEY\<close> is non-empty, the value of \<^verbatim>\<open>GOOGLE_API_KEY\<close> is the credential, and
  it is the key in the URL of the outbound call.
\<close>

theorem credential_first_non_empty:
  "(getenv w ''GEMINI_API_KEY'' = Some g \<and> g \<noteq> [] \<longrightarrow> gemini_api_key w = Inr g) \<and>
   ((getenv w ''GEMINI_API_KEY'' = None \<or> getenv w ''GEMINI_API_KEY'' = Some []) \<and>
    getenv w ''GOOGLE_API_KEY'' = Some k \<and> k \<noteq> [] \<longrightarrow>
      gemini_api_key w = Inr k \<and>
      calls (snd (gemini_generate w cs)) =
        calls w @ [\<lparr>url = gemini_url k, contents = cs, timeout = 60\<rparr>])"
proof (intro conjI impI)
  assume "getenv w ''GEMINI_API_KEY'' = Some g \<and> g \<noteq> []"
  then show "gemini_api_key w = Inr g"
    by (cases g) (auto simp: gemini_api_key_def env_or_def)
next
  assume h: "(getenv w ''GEMINI_API_KEY'' = None \<or> getenv w ''GEMINI_API_KEY'' = Some []) \<and>
    getenv w ''GOOGLE_API_KEY'' = Some k \<and> k \<noteq> []"
  then show key: "gemini_api_key w = Inr k"
    by (cases k) (auto simp: gemini_api_key_def env_or_def)
  show "calls (snd (gemini_generate w cs)) =
        calls w @ [\<lparr>url = gemini_url k, contents = cs, timeout = 60\<rparr>]"
    by (simp add: generate_calls [OF key])
qed

theorem credential_first_non_empty_witness:
  "gemini_api_key (provider_world empty_object_response) = Inr ''k1'' \<and>
   gemini_api_key fallback_key_world = Inr ''k2'' \<and>
   calls (snd (gemini_generate fallback_key_world [])) =
     [\<lparr>url = gemini_url ''k2'', contents = [], timeout = 60\<rparr>]"
  using credential_first_non_empty [of fallback_key_world "''k1''" "''k2''" "[]"]
    credential_first_non_empty [of "provider_world empty_object_response" "''k1''" "''k2''" "[]"]
  by (simp add: fallback_key_world_def provider_world_def)

section \<open>Upstream errors and the number of outbound calls (C7, C9)\<close>

text \<open>
  Claim C7, as stated, at a provider that answers 201, a 2xx status: the claim says no
  upstream error is raised, the code compares the status with 200 and raises one.
\<close>

theorem status_201_counterexample:
  "fst (gemini_generate (provider_world created_response) []) =
     Inl (HTTPException 201 ''Gemini API error: created'')"
  by (simp add: provider_world_def created_response_def gemini_generate_def gemini_api_key_def
      env_or_def)

text \<open>
  Claim C7, amended: when the provider returns a response, the gateway fails with an
  upstream error exactly when the status is not 200; the error then carries the
  provider's status and the message \<^verbatim>\<open>Gemini API error: \<close> followed by the first 500
  characters of the raw body. For the status 200 it raises no \<^verbatim>\<open>HTTPException\<close> at all.
\<close>

theorem upstream_error_iff_not_200:
  assumes "gemini_api_key w = Inr k"
    and "post w \<lparr>url = gemini_url k, contents = cs, timeout = 60\<rparr> = Responded resp"
  shows "(status_code resp \<noteq> 200 \<longrightarrow>
            fst (gemini_generate w cs) =
              Inl (HTTPException (status_code resp)
                     (''Gemini API error: '' @ take 500 (resp_text resp)))) \<and>
         (status_code resp = 200 \<longrightarrow>
            (\<forall>s d. fst (gemini_generate w cs) \<noteq> Inl (HTTPException s d)))"
  by (simp add: generate_on_response [OF assms] split: option.split)

text \<open>The specification's example: status 429 with the body \<^verbatim>\<open>rate limited\<close>.\<close>

theorem upstream_error_iff_not_200_witness:
  "fst (gemini_generate (provider_world rate_limited_response) []) =
     Inl (HTTPException 429 ''Gemini API error: rate limited'') \<and>
   (\<forall>s d. fst (gemini_generate (provider_world empty_object_response) []) \<noteq>
      Inl (HTTPException s d))"
  using upstream_error_iff_not_200 [of "provider_world rate_limited_response" "''k1''" "[]"
      rate_limited_response]
    upstream_error_iff_not_200 [of "provider_world empty_object_response" "''k1''" "[]"
      empty_object_response]
  by (simp add: provider_world_def rate_limited_response_def empty_object_response_def
      gemini_api_key_def env_or_def)

text \<open>
  Claim C9, as stated, at two requests that trigger no outbound call at all: an empty
  image upload, and a text request in an environment with no credential.
\<close>

theorem no_call_counterexample:
  "calls (provider_world empty_object_response) = [] \<and>
   calls (snd (solve_image (provider_world empty_object_response) empty_upload None)) = [] \<and>
   calls no_key_world = [] \<and>
   calls (snd (solve_text no_key_world sample_body)) = []"
  by (simp add: solve_image_def empty_upload_def provider_world_def solve_text_def
      gemini_generate_def gemini_api_key_def env_or_def no_key_world_def)

text \<open>
  Claim C9, amended: every solve request triggers at most one outbound provider call,
  whatever the input, the earlier calls and the provider's outcome: exactly one when a
  credential is configured (and, for \<^verbatim>\<open>solve_image\<close>, the payload is non-empty), and
  none otherwise.
\<close>

theorem at_most_one_call:
  "calls (snd (solve_text w body)) =
     calls w @ (case gemini_api_key w of
                  Inl e \<Rightarrow> []
                | Inr k \<Rightarrow> [\<lparr>url = gemini_url k, contents = text_contents body, timeout = 60\<rparr>]) \<and>
   calls (snd (solve_image w img q)) =
     calls w @ (if file_bytes img = [] then []
                else case gemini_api_key w of
                       Inl e \<Rightarrow> []
                     | Inr k \<Rightarrow> [\<lparr>url = gemini_url k, contents = image_contents img q,
                                  timeout = 60\<rparr>])"
proof -
  have g: "calls (snd (gemini_generate w cs)) =
     calls w @ (case gemini_api_key w of
                  Inl e \<Rightarrow> []
                | Inr k \<Rightarrow> [\<lparr>url = gemini_url k, contents = cs, timeout = 60\<rparr>])" for cs
    by (cases "gemini_api_key w") (simp_all add: generate_without_key generate_calls)
  show ?thesis
    by (cases "file_bytes img = []")
      (simp_all add: solve_text_world solve_image_world g, simp add: solve_image_def)
qed

theorem at_most_one_call_witness:
  "calls (snd (solve_text (provider_world html_response) sample_body)) =
     [\<lparr>url = gemini_url ''k1'', contents = text_contents sample_body, timeout = 60\<rparr>] \<and>
   calls (snd (solve_image fallback_key_world sample_upload None)) =
     [\<lparr>url = gemini_url ''k2'', contents = image_contents sample_upload None, timeout = 60\<rparr>]"
  using at_most_one_call [of "provider_world html_response" sample_body sample_upload None]
    at_most_one_call [of fallback_key_world sample_body sample_upload None]
  by (simp add: provider_world_def fallback_key_world_def gemini_api_key_def env_or_def
      sample_upload_def)

end
